theory Spec2Isabelle
  imports Main
begin

section \<open>Checkpoint conversion: \<open>llm_converter.py\<close>\<close>

text \<open>
  The module quantizes the tensors of a checkpoint action by action
  (\<open>quantize_by_actions\<close>), validates a conversion configuration
  (\<open>ConversionConfig.__init__\<close>) and sequences loader, executor, writer and
  artifact generator (\<open>convert_checkpoint\<close>,
  \<open>combined_weight_bins_to_tflite\<close>).

  The numeric routines of \<open>quantization_util\<close>, the factories of
  \<open>converter_factory\<close>, the generators of \<open>model_ckpt_util\<close> and the
  operating-system interface are collaborators outside the module. They are
  parameters of the model: every theorem below holds for all of them.
\<close>

subsection \<open>Errors\<close>

text \<open>
  \<open>ValueError\<close> carries the message of a \<open>raise ValueError(...)\<close> of the
  module. \<open>UnpackError expected got\<close> is the \<open>ValueError\<close> Python raises when
  a tuple of \<open>got\<close> components is unpacked into \<open>expected\<close> names.
  \<open>ExternalError\<close> is any exception raised inside a collaborator.
\<close>

datatype error =
    ValueError string
  | UnpackError nat nat
  | ExternalError string

subsection \<open>Quantization actions and the output mapping\<close>

text \<open>
  Modelled from the spec: the class \<open>QuantizationAction\<close> of \<open>converter_base\<close>,
  whose declaration is not part of the module. The spec gives it a target
  name, a tensor value, an optional axis index and a bit width. Tensor values
  are of an arbitrary type \<open>'t\<close>.
\<close>

record 't QuantizationAction =
  target_name :: string
  tensor_value :: 't
  quantize_axis :: "int option"
  quantize_bits :: int

text \<open>
  Modelled from the spec: what \<open>quantization_util.quantize_tensor\<close> returns, a
  pair \<open>(quantized_value, scale)\<close> or a triple
  \<open>(quantized_value, scale, zero_point)\<close>.
\<close>

datatype 't qtuple =
    Pair2 't 't
  | Triple3 't 't 't

text \<open>
  The two routines of \<open>quantization_util\<close> the executor calls, with the
  arguments in the order \<open>var\<close>, \<open>axis\<close>, \<open>sym\<close>, \<open>number_bits\<close>. The
  executor hands \<open>action.quantize_axis\<close> over as it is. Either routine may
  raise.
\<close>

record 't primitives =
  quantize_tensor :: "'t \<Rightarrow> int option \<Rightarrow> bool \<Rightarrow> int \<Rightarrow> error + 't qtuple"
  update_to_uint4 :: "'t \<Rightarrow> 't \<Rightarrow> 't \<Rightarrow> error + ('t \<times> 't \<times> 't)"

text \<open>The dictionary \<open>output_tensors\<close>: name to (value, needs packing).\<close>

type_synonym 't tensors = "string \<rightharpoonup> ('t \<times> bool)"

subsection \<open>The executor: \<open>quantize_by_actions\<close>\<close>

text \<open>
  Python's truth value of \<open>action.quantize_axis\<close>: \<open>None\<close> and the integer
  \<open>0\<close> are false, every other integer is true.
\<close>

definition truthy :: "int option \<Rightarrow> bool" where
  "truthy v = (case v of None \<Rightarrow> False | Some n \<Rightarrow> n \<noteq> 0)"

text \<open>
  The body of the \<open>for\<close> loop (lines 98 to 124), on the dictionary built so
  far. An exception of a routine, or a result that does not unpack into the
  names on the left, ends the run.
\<close>

definition quantize_action ::
  "'t primitives \<Rightarrow> string \<Rightarrow> bool \<Rightarrow> 't QuantizationAction \<Rightarrow> 't tensors
     \<Rightarrow> error + 't tensors" where
  "quantize_action P backend is_symmetric action output_tensors =
    (if truthy (quantize_axis action) then
       (let pack = (quantize_bits action = 4) in
        if is_symmetric then
          (case quantize_tensor P (tensor_value action) (quantize_axis action)
                  is_symmetric (quantize_bits action) of
            Inl e \<Rightarrow> Inl e
          | Inr (Triple3 q s z) \<Rightarrow> Inl (UnpackError 2 3)
          | Inr (Pair2 target_var scale) \<Rightarrow>
              Inr (output_tensors
                (target_name action \<mapsto> (target_var, pack),
                 target_name action @ ''_quantized_scale'' \<mapsto> (scale, False))))
        else
          (case quantize_tensor P (tensor_value action) (quantize_axis action)
                  is_symmetric (quantize_bits action) of
            Inl e \<Rightarrow> Inl e
          | Inr (Pair2 q s) \<Rightarrow> Inl (UnpackError 3 2)
          | Inr (Triple3 target_var scale zp) \<Rightarrow>
              (case (if backend = ''xnnpack'' \<and> quantize_bits action = 4
                     then update_to_uint4 P target_var scale zp
                     else Inr (target_var, scale, zp)) of
                Inl e \<Rightarrow> Inl e
              | Inr (target_var', scale', zp') \<Rightarrow>
                  Inr (output_tensors
                    (target_name action \<mapsto> (target_var', pack),
                     target_name action @ ''_quantized_scale'' \<mapsto> (scale', False),
                     target_name action @ ''_quantized_zp'' \<mapsto> (zp', False))))))
     else
       Inr (output_tensors(target_name action \<mapsto> (tensor_value action, False))))"

text \<open>The loop over the actions, in input order, stopping at the first exception.\<close>

fun run_actions ::
  "'t primitives \<Rightarrow> string \<Rightarrow> bool \<Rightarrow> 't QuantizationAction list \<Rightarrow> 't tensors
     \<Rightarrow> error + 't tensors" where
  "run_actions P backend is_symmetric [] output_tensors = Inr output_tensors"
| "run_actions P backend is_symmetric (action # actions) output_tensors =
    (case quantize_action P backend is_symmetric action output_tensors of
      Inl e \<Rightarrow> Inl e
    | Inr output_tensors' \<Rightarrow> run_actions P backend is_symmetric actions output_tensors')"

definition quantize_by_actions ::
  "'t primitives \<Rightarrow> 't QuantizationAction list \<Rightarrow> string \<Rightarrow> bool
     \<Rightarrow> error + 't tensors" where
  "quantize_by_actions P actions backend is_symmetric =
     run_actions P backend is_symmetric actions Map.empty"

subsection \<open>Effects of the orchestrator\<close>

text \<open>
  The world outside the module is of an arbitrary type \<open>'w\<close>; collaborators
  read and change it. Next to it the state keeps a trace: one \<open>Info\<close> per
  \<open>logging.info\<close> and one \<open>Call\<close> per invocation of a collaborator, in the
  order in which the module performs them.
\<close>

datatype collaborator =
    MakeDirs
  | LoaderFactory
  | Loader
  | WriterFactory
  | Writer
  | XnnpackGenerator
  | MlDriftGenerator

datatype event =
    Info string
  | Call collaborator

record 'w state =
  env :: 'w
  trace :: "event list"

type_synonym ('a, 'w) proc = "'w state \<Rightarrow> (error + 'a) \<times> 'w state"

definition return_io :: "'a \<Rightarrow> ('a, 'w) proc" where
  "return_io x s = (Inr x, s)"

definition raise_io :: "error \<Rightarrow> ('a, 'w) proc" where
  "raise_io e s = (Inl e, s)"

definition bind_io :: "('a, 'w) proc \<Rightarrow> ('a \<Rightarrow> ('b, 'w) proc) \<Rightarrow> ('b, 'w) proc" where
  "bind_io m f s = (case m s of (Inl e, s') \<Rightarrow> (Inl e, s') | (Inr x, s') \<Rightarrow> f x s')"

definition logging_info :: "string \<Rightarrow> (unit, 'w) proc" where
  "logging_info msg s = (Inr (), s\<lparr>trace := trace s @ [Info msg]\<rparr>)"

text \<open>Invoking a collaborator: the call is recorded, then it acts on the world.\<close>

definition call :: "collaborator \<Rightarrow> ('w \<Rightarrow> (error + 'a) \<times> 'w) \<Rightarrow> ('a, 'w) proc" where
  "call c f s =
     (case f (env s) of (r, w') \<Rightarrow> (r, \<lparr>env = w', trace = trace s @ [Call c]\<rparr>))"

subsection \<open>\<open>ConversionConfig.__init__\<close>\<close>

text \<open>
  The functions of \<open>os\<close> and \<open>os.path\<close> the constructor uses.
  \<open>os_makedirs\<close> is \<open>os.makedirs(path, exist_ok=True)\<close>.
\<close>

record 'w os_interface =
  path_isfile :: "string \<Rightarrow> 'w \<Rightarrow> bool"
  path_isdir :: "string \<Rightarrow> 'w \<Rightarrow> bool"
  path_dirname :: "string \<Rightarrow> string"
  path_join :: "string \<Rightarrow> string \<Rightarrow> string"
  os_makedirs :: "string \<Rightarrow> 'w \<Rightarrow> (error + unit) \<times> 'w"

text \<open>
  The object under construction is its attribute dictionary; an attribute
  holds a string, a boolean or an integer.
\<close>

datatype pyval =
    PyStr string
  | PyBool bool
  | PyInt int

type_synonym attrs = "string \<rightharpoonup> pyval"

text \<open>
  Lines 57 to 59 and lines 69 to 71 have the same shape: a directory that is
  not there is announced in the log and created.
\<close>

definition create_if_absent :: "'w os_interface \<Rightarrow> string \<Rightarrow> string \<Rightarrow> (unit, 'w) proc" where
  "create_if_absent os msg dir s =
     (if \<not> path_isdir os dir (env s) then
        bind_io (logging_info (msg @ dir)) (\<lambda>_. call MakeDirs (os_makedirs os dir)) s
      else return_io () s)"

text \<open>
  The constructor takes the attribute dictionary \<open>self\<close> of the new object and
  returns it as it stands when the constructor returns or raises. The truth
  value of \<open>output_tflite_file\<close> is false for \<open>None\<close> and for the empty string.
\<close>

definition ConversionConfig_init ::
  "'w os_interface \<Rightarrow> string \<Rightarrow> string \<Rightarrow> string \<Rightarrow> string \<Rightarrow> string \<Rightarrow> bool
     \<Rightarrow> int \<Rightarrow> int \<Rightarrow> int \<Rightarrow> bool \<Rightarrow> string \<Rightarrow> string option
     \<Rightarrow> attrs \<Rightarrow> 'w state \<Rightarrow> (error + unit) \<times> attrs \<times> 'w state" where
  "ConversionConfig_init os input_ckpt ckpt_format model_type backend output_dir
      is_symmetric attention_quant_bits feedforward_quant_bits embedding_quant_bits
      combine_file_only vocab_model_file output_tflite_file self s =
    (let self1 = self
           (''input_ckpt'' \<mapsto> PyStr input_ckpt,
            ''ckpt_format'' \<mapsto> PyStr ckpt_format,
            ''model_type'' \<mapsto> PyStr model_type,
            ''backend'' \<mapsto> PyStr backend)
     in
     if path_isfile os output_dir (env s) then
       (Inl (ValueError ''Output directory mush not point to an existing file.''), self1, s)
     else
       (case create_if_absent os ''Creating output directory: '' output_dir s of
         (Inl e, s1) \<Rightarrow> (Inl e, self1, s1)
       | (Inr _, s1) \<Rightarrow>
           (let self2 = self1
                  (''output_dir'' \<mapsto> PyStr output_dir,
                   ''is_symmetric'' \<mapsto> PyBool is_symmetric,
                   ''attention_quant_bits'' \<mapsto> PyInt attention_quant_bits,
                   ''feedforward_quant_bits'' \<mapsto> PyInt feedforward_quant_bits,
                   ''embedding_quant_bits'' \<mapsto> PyInt embedding_quant_bits,
                   ''combine_file_only'' \<mapsto> PyBool combine_file_only,
                   ''vocab_model_file'' \<mapsto> PyStr vocab_model_file)
            in
            (case output_tflite_file of
              Some file \<Rightarrow>
                if file \<noteq> [] then
                  (case create_if_absent os ''Creating tflite parent directory: ''
                          (path_dirname os file) s1 of
                    (Inl e, s2) \<Rightarrow> (Inl e, self2, s2)
                  | (Inr _, s2) \<Rightarrow>
                      (Inr (), self2(''output_tflite_file'' \<mapsto> PyStr file), s2))
                else
                  (Inr (), self2(''output_tflite_file'' \<mapsto>
                     PyStr (path_join os output_dir ''model.tflite'')), s1)
            | None \<Rightarrow>
                (Inr (), self2(''output_tflite_file'' \<mapsto>
                   PyStr (path_join os output_dir ''model.tflite'')), s1)))))"

subsection \<open>\<open>combined_weight_bins_to_tflite\<close> and \<open>convert_checkpoint\<close>\<close>

text \<open>
  A loader is its method \<open>load_to_actions\<close>, a writer its method
  \<open>write_variables\<close>. The factories of \<open>converter_factory\<close> and the generators
  of \<open>model_ckpt_util\<close> take their arguments in the order of the calls in the
  source.
\<close>

type_synonym ('t, 'w) loader = "'w \<Rightarrow> (error + 't QuantizationAction list) \<times> 'w"

type_synonym ('t, 'w) writer = "'t tensors \<Rightarrow> 'w \<Rightarrow> (error + unit) \<times> 'w"

record ('t, 'w) externals =
  create_ckpt_loader ::
    "string \<Rightarrow> string \<Rightarrow> bool \<Rightarrow> string \<Rightarrow> int \<Rightarrow> int \<Rightarrow> int \<Rightarrow> string
       \<Rightarrow> 'w \<Rightarrow> (error + ('t, 'w) loader) \<times> 'w"
  create_writer ::
    "string \<Rightarrow> string \<Rightarrow> string \<Rightarrow> 'w \<Rightarrow> (error + ('t, 'w) writer) \<times> 'w"
  GenerateXnnpackTfLite ::
    "string \<Rightarrow> string \<Rightarrow> string \<Rightarrow> bool \<Rightarrow> string \<Rightarrow> 'w \<Rightarrow> (error + unit) \<times> 'w"
  GenerateMlDriftTfLite ::
    "string \<Rightarrow> string \<Rightarrow> string \<Rightarrow> bool \<Rightarrow> string \<Rightarrow> 'w \<Rightarrow> (error + unit) \<times> 'w"

definition combined_weight_bins_to_tflite ::
  "('t, 'w) externals \<Rightarrow> string \<Rightarrow> string \<Rightarrow> string \<Rightarrow> string \<Rightarrow> string
     \<Rightarrow> (unit, 'w) proc" where
  "combined_weight_bins_to_tflite X model_type backend weight_path output_tflite_file
      vocab_model_file =
    (if backend = ''xnnpack'' then
       call XnnpackGenerator
         (GenerateXnnpackTfLite X model_type weight_path vocab_model_file True
            output_tflite_file)
     else if backend = ''ml_drift'' then
       call MlDriftGenerator
         (GenerateMlDriftTfLite X model_type weight_path vocab_model_file True
            output_tflite_file)
     else raise_io (ValueError (''Unsupported backend: '' @ backend)))"

text \<open>
  A constructed configuration, as \<open>convert_checkpoint\<close> reads it: one field
  per attribute the constructor sets.
\<close>

record ConversionConfig =
  cfg_input_ckpt :: string
  cfg_ckpt_format :: string
  cfg_model_type :: string
  cfg_backend :: string
  cfg_output_dir :: string
  cfg_is_symmetric :: bool
  cfg_attention_quant_bits :: int
  cfg_feedforward_quant_bits :: int
  cfg_embedding_quant_bits :: int
  cfg_combine_file_only :: bool
  cfg_vocab_model_file :: string
  cfg_output_tflite_file :: string

definition convert_checkpoint ::
  "('t, 'w) externals \<Rightarrow> 't primitives \<Rightarrow> ConversionConfig \<Rightarrow> (unit, 'w) proc" where
  "convert_checkpoint X P config =
    bind_io (logging_info (''input folder: '' @ cfg_input_ckpt config)) (\<lambda>_.
    bind_io
      (if \<not> cfg_combine_file_only config then
         bind_io (call LoaderFactory
                    (create_ckpt_loader X (cfg_ckpt_format config) (cfg_input_ckpt config)
                       (cfg_is_symmetric config) (cfg_backend config)
                       (cfg_attention_quant_bits config)
                       (cfg_feedforward_quant_bits config)
                       (cfg_embedding_quant_bits config) (cfg_model_type config)))
           (\<lambda>loader.
         bind_io (call Loader loader) (\<lambda>actions.
         bind_io (case quantize_by_actions P actions (cfg_backend config)
                         (cfg_is_symmetric config) of
                    Inl e \<Rightarrow> raise_io e
                  | Inr quantized_tensors \<Rightarrow> return_io quantized_tensors)
           (\<lambda>quantized_tensors.
         bind_io (call WriterFactory
                    (create_writer X ''weight_bins'' (cfg_output_dir config)
                       (cfg_backend config)))
           (\<lambda>writer.
         call Writer (writer quantized_tensors)))))
       else return_io ())
      (\<lambda>_.
    combined_weight_bins_to_tflite X (cfg_model_type config) (cfg_backend config)
      (cfg_output_dir config) (cfg_output_tflite_file config)
      (cfg_vocab_model_file config)))"

subsection \<open>A concrete instance for evaluation\<close>

text \<open>
  To run the model on concrete inputs the parameters need values. Tensors are
  integer matrices, given by rows. The quantizer below is the trivial one:
  the values themselves, scale one and zero point zero for each row; it raises
  outside the bit widths 2 to 8. \<open>update_to_uint4\<close> adds 8 to the values and
  to the zero points. No theorem about the module depends on these choices.
\<close>

type_synonym matrix = "int list list"

definition unit_quantize :: "matrix \<Rightarrow> int option \<Rightarrow> bool \<Rightarrow> int \<Rightarrow> error + matrix qtuple" where
  "unit_quantize var axis symmetric number_bits =
     (if number_bits < 2 \<or> 8 < number_bits then Inl (ExternalError ''number_bits'')
      else if symmetric then Inr (Pair2 var (map (\<lambda>row. [1]) var))
      else Inr (Triple3 var (map (\<lambda>row. [1]) var) (map (\<lambda>row. [0]) var)))"

definition add_eight :: "matrix \<Rightarrow> matrix \<Rightarrow> matrix \<Rightarrow> error + (matrix \<times> matrix \<times> matrix)" where
  "add_eight q s z = Inr (map (map (\<lambda>x. x + 8)) q, s, map (map (\<lambda>x. x + 8)) z)"

definition unit_primitives :: "matrix primitives" where
  "unit_primitives = \<lparr>quantize_tensor = unit_quantize, update_to_uint4 = add_eight\<rparr>"

text \<open>
  A world that is a set of existing files and a set of existing directories,
  with POSIX-like path functions kept to what the examples need.
\<close>

record files =
  regular :: "string list"
  directories :: "string list"

definition simple_os :: "files os_interface" where
  "simple_os =
     \<lparr>path_isfile = (\<lambda>p w. p \<in> set (regular w)),
      path_isdir = (\<lambda>p w. p \<in> set (directories w)),
      path_dirname = (\<lambda>p. rev (tl (dropWhile (\<lambda>c. c \<noteq> CHR ''/'') (rev p)))),
      path_join = (\<lambda>a b. a @ ''/'' @ b),
      os_makedirs = (\<lambda>p w. (Inr (), w\<lparr>directories := p # directories w\<rparr>))\<rparr>"

text \<open>Collaborators that fail whenever they are invoked.\<close>

definition failing_externals :: "(matrix, files) externals" where
  "failing_externals =
     \<lparr>create_ckpt_loader = (\<lambda>f p symmetric b ab fb eb m w. (Inl (ExternalError ''loader''), w)),
      create_writer = (\<lambda>t d b w. (Inl (ExternalError ''writer''), w)),
      GenerateXnnpackTfLite = (\<lambda>m p v e out w. (Inl (ExternalError ''xnnpack''), w)),
      GenerateMlDriftTfLite = (\<lambda>m p v e out w. (Inl (ExternalError ''ml_drift''), w))\<rparr>"

text \<open>Collaborators that succeed: one action is loaded, and the writer and the
  generators leave a file behind.\<close>

definition simple_externals :: "(matrix, files) externals" where
  "simple_externals =
     \<lparr>create_ckpt_loader = (\<lambda>f p symmetric b ab fb eb m w.
        (Inr (\<lambda>w'. (Inr [\<lparr>target_name = ''w'', tensor_value = [[1, 2], [3, 4]],
                              quantize_axis = Some 1, quantize_bits = ab\<rparr>], w')), w)),
      create_writer = (\<lambda>t d b w.
        (Inr (\<lambda>tensors w'. (Inr (), w'\<lparr>regular := (d @ ''/weights.bin'') # regular w'\<rparr>)), w)),
      GenerateXnnpackTfLite = (\<lambda>m p v e out w. (Inr (), w\<lparr>regular := out # regular w\<rparr>)),
      GenerateMlDriftTfLite = (\<lambda>m p v e out w. (Inr (), w\<lparr>regular := out # regular w\<rparr>))\<rparr>"

section \<open>Properties of the executor\<close>

subsection \<open>Auxiliary facts\<close>

lemma truthy_simps:
  "truthy None = False" "truthy (Some n) = (n \<noteq> 0)"
  by (simp_all add: truthy_def)

lemma quantize_action_falsy:
  "\<not> truthy (quantize_axis a) \<Longrightarrow>
     quantize_action P backend is_symmetric a out =
       Inr (out(target_name a \<mapsto> (tensor_value a, False)))"
  by (simp add: quantize_action_def)

text \<open>
  What an action writes does not depend on the dictionary built so far: the
  loop body adds to it the entries the action would write into an empty one.
\<close>

lemma quantize_action_add:
  "quantize_action P backend is_symmetric a out = Inr out' \<longleftrightarrow>
     (\<exists>d. quantize_action P backend is_symmetric a Map.empty = Inr d \<and> out' = out ++ d)"
  by (auto simp: quantize_action_def Let_def
      split: sum.splits qtuple.splits prod.splits)

lemma run_actions_append:
  "run_actions P backend is_symmetric (xs @ ys) out =
     (case run_actions P backend is_symmetric xs out of
        Inl e \<Rightarrow> Inl e
      | Inr out' \<Rightarrow> run_actions P backend is_symmetric ys out')"
  by (induction xs arbitrary: out) (auto split: sum.splits)

text \<open>The quantized branch of the loop body, result by result.\<close>

lemma quantize_action_truthy_cases:
  assumes "truthy (quantize_axis a)"
    and "quantize_action P backend is_symmetric a out = Inr out'"
  obtains (symmetric) q s where "is_symmetric"
      "out' = out(target_name a \<mapsto> (q, quantize_bits a = 4),
                  target_name a @ ''_quantized_scale'' \<mapsto> (s, False))"
  | (asymmetric) q s z where "\<not> is_symmetric"
      "out' = out(target_name a \<mapsto> (q, quantize_bits a = 4),
                  target_name a @ ''_quantized_scale'' \<mapsto> (s, False),
                  target_name a @ ''_quantized_zp'' \<mapsto> (z, False))"
  using assms
  by (auto simp: quantize_action_def Let_def
      split: sum.splits qtuple.splits prod.splits if_splits)

text \<open>A list is accepted as soon as each of its actions is accepted on its own.\<close>

lemma run_actions_accepts:
  assumes "\<forall>a \<in> set xs. \<exists>d. quantize_action P backend is_symmetric a Map.empty = Inr d"
  shows "\<exists>out'. run_actions P backend is_symmetric xs out = Inr out'"
  using assms
proof (induction xs arbitrary: out)
  case Nil
  show ?case by simp
next
  case (Cons x xs)
  from Cons.prems obtain d where "quantize_action P backend is_symmetric x Map.empty = Inr d"
    by (meson list.set_intros(1))
  then have step: "quantize_action P backend is_symmetric x out = Inr (out ++ d)"
    using quantize_action_add [of P backend is_symmetric x out "out ++ d"] by blast
  from Cons.prems
  have "\<forall>a \<in> set xs. \<exists>d. quantize_action P backend is_symmetric a Map.empty = Inr d"
    by simp
  from Cons.IH [OF this, of "out ++ d"] step show ?case
    by simp
qed

subsection \<open>The end-to-end scenario with axis 0\<close>




subsection \<open>Axis 0 and an unset axis\<close>

text \<open>
  Claim C2. An action whose \<open>quantize_axis\<close> is \<open>0\<close> is treated exactly like
  one whose axis is \<open>None\<close>. Whatever the bit width, the symmetry flag, the
  backend and the routines are, the loop body writes one entry, the input
  tensor under \<open>target_name\<close> with the packing flag false, and leaves every
  other key of the dictionary as it was; it does the same for the action with
  the axis reset to \<open>None\<close>; and resetting the axis of such an action anywhere
  in a list does not change what the executor returns.
\<close>

theorem axis_zero_treated_as_unset:
  assumes "quantize_axis a = Some 0"
  shows "quantize_action P backend is_symmetric a out =
           Inr (out(target_name a \<mapsto> (tensor_value a, False)))
       \<and> quantize_action P backend is_symmetric a out =
           quantize_action P' backend' is_symmetric' (a\<lparr>quantize_axis := None\<rparr>) out
       \<and> quantize_by_actions P (pre @ a # post) backend is_symmetric =
           quantize_by_actions P (pre @ a\<lparr>quantize_axis := None\<rparr> # post) backend
             is_symmetric"
proof -
  have zero: "quantize_action Q b s a m = Inr (m(target_name a \<mapsto> (tensor_value a, False)))"
    for Q b s m
    using assms by (simp add: quantize_action_falsy truthy_simps)
  have unset: "quantize_action Q b s (a\<lparr>quantize_axis := None\<rparr>) m =
      Inr (m(target_name a \<mapsto> (tensor_value a, False)))"
    for Q b s m
    by (simp add: quantize_action_falsy truthy_simps)
  show ?thesis
    by (simp add: zero unset quantize_by_actions_def run_actions_append split: sum.splits)
qed

theorem axis_zero_treated_as_unset_witness:
  "quantize_action unit_primitives ''ml_drift'' False
     \<lparr>target_name = ''w'', tensor_value = [[1, 2], [3, 4]], quantize_axis = Some 0,
      quantize_bits = 4\<rparr> Map.empty
   = Inr [''w'' \<mapsto> ([[1, 2], [3, 4]], False)]
   \<and> quantize_action unit_primitives ''ml_drift'' False
     \<lparr>target_name = ''w'', tensor_value = [[1, 2], [3, 4]], quantize_axis = Some 0,
      quantize_bits = 4\<rparr> Map.empty
   = quantize_action unit_primitives ''xnnpack'' True
     \<lparr>target_name = ''w'', tensor_value = [[1, 2], [3, 4]], quantize_axis = None,
      quantize_bits = 4\<rparr> Map.empty"
proof -
  let ?a = "\<lparr>target_name = ''w'', tensor_value = [[1, 2], [3, 4 :: int]],
             quantize_axis = Some 0, quantize_bits = 4\<rparr>"
  have h: "quantize_axis ?a = Some 0"
    by simp
  from axis_zero_treated_as_unset
    [OF h, of unit_primitives "''ml_drift''" False Map.empty unit_primitives "''xnnpack''" True
      "[]" "[]", simplified]
  show ?thesis
    by blast
qed

subsection \<open>An unset axis\<close>

text \<open>
  Claim C8. For an action whose \<open>quantize_axis\<close> is \<open>None\<close> the executor adds
  exactly one entry: the input tensor, unchanged, under \<open>target_name\<close>, with
  the packing flag false. Every other key of the dictionary stays as it was,
  so no scale and no zero point is produced for the action; an action list
  with this one action yields the mapping with this one key.
\<close>

theorem unset_axis_copies_tensor:
  assumes "quantize_axis a = None"
  shows "quantize_action P backend is_symmetric a out =
           Inr (out(target_name a \<mapsto> (tensor_value a, False)))
       \<and> quantize_by_actions P [a] backend is_symmetric =
           Inr [target_name a \<mapsto> (tensor_value a, False)]"
  using assms by (simp add: quantize_by_actions_def quantize_action_falsy truthy_simps)

theorem unset_axis_copies_tensor_witness:
  "quantize_by_actions unit_primitives
     [\<lparr>target_name = ''norm'', tensor_value = [[1, 2], [3, 4]], quantize_axis = None,
       quantize_bits = 4\<rparr>] ''xnnpack'' False
   = Inr [''norm'' \<mapsto> ([[1, 2], [3, 4]], False)]"
proof -
  let ?a = "\<lparr>target_name = ''norm'', tensor_value = [[1, 2], [3, 4 :: int]],
             quantize_axis = None, quantize_bits = 4\<rparr>"
  have h: "quantize_axis ?a = None"
    by simp
  from unset_axis_copies_tensor
    [OF h, of unit_primitives "''xnnpack''" False Map.empty, simplified]
  show ?thesis
    by simp
qed

subsection \<open>Entries of a quantized action\<close>



subsection \<open>The packing flag\<close>

text \<open>
  Claim C9. For every action the executor quantizes, the packing flag of the
  base entry is true if and only if \<open>quantize_bits\<close> is 4; the scale entry,
  and on an asymmetric run the zero-point entry, carry the flag false.
\<close>

theorem packing_flag_iff_four_bits:
  assumes "truthy (quantize_axis a)"
    and "quantize_action P backend is_symmetric a out = Inr out'"
  shows "(\<exists>q. out' (target_name a) = Some (q, quantize_bits a = 4))
       \<and> (\<exists>s. out' (target_name a @ ''_quantized_scale'') = Some (s, False))
       \<and> (\<not> is_symmetric \<longrightarrow>
            (\<exists>z. out' (target_name a @ ''_quantized_zp'') = Some (z, False)))"
  using assms
proof (cases rule: quantize_action_truthy_cases)
  case (symmetric q s)
  then show ?thesis by auto
next
  case (asymmetric q s z)
  then show ?thesis by auto
qed

theorem packing_flag_iff_four_bits_witness:
  "quantize_action unit_primitives ''ml_drift'' False
     \<lparr>target_name = ''w'', tensor_value = [[1, 2], [3, 4]], quantize_axis = Some 1,
      quantize_bits = 4\<rparr> Map.empty
   = Inr [''w'' \<mapsto> ([[1, 2], [3, 4]], True),
          ''w_quantized_scale'' \<mapsto> ([[1], [1]], False),
          ''w_quantized_zp'' \<mapsto> ([[0], [0]], False)]
   \<and> (\<exists>q. [''w'' \<mapsto> ([[1, 2], [3, 4 :: int]], True),
          ''w_quantized_scale'' \<mapsto> ([[1], [1]], False),
          ''w_quantized_zp'' \<mapsto> ([[0], [0]], False)] ''w'' = Some (q, True))"
proof -
  let ?a = "\<lparr>target_name = ''w'', tensor_value = [[1, 2], [3, 4 :: int]],
             quantize_axis = Some 1, quantize_bits = 4\<rparr>"
  let ?m = "[''w'' \<mapsto> ([[1, 2], [3, 4 :: int]], True),
             ''w_quantized_scale'' \<mapsto> ([[1], [1]], False),
             ''w_quantized_zp'' \<mapsto> ([[0], [0]], False)]"
  have h1: "truthy (quantize_axis ?a)"
    by (simp add: truthy_def)
  have h2: "quantize_action unit_primitives ''ml_drift'' False ?a Map.empty = Inr ?m"
    by (simp add: quantize_action_def truthy_def unit_primitives_def unit_quantize_def)
  from packing_flag_iff_four_bits [OF h1 h2] h2
  show ?thesis
    by simp
qed

subsection \<open>The backend matters on the asymmetric path only\<close>

text \<open>
  Claim C10. With the symmetry flag set, the output of the executor is the
  same for every backend tag: for every list of actions and any two backends,
  \<open>quantize_by_actions\<close> returns the same mapping, or raises the same error.
  The backend is looked at on the asymmetric path only.
\<close>

theorem symmetric_run_ignores_backend:
  "quantize_by_actions P actions b1 True = quantize_by_actions P actions b2 True"
proof -
  have step: "quantize_action P b1 True a out = quantize_action P b2 True a out"
    for a out
    by (simp add: quantize_action_def)
  have "run_actions P b1 True actions out = run_actions P b2 True actions out" for out
    by (induction actions arbitrary: out) (simp_all add: step split: sum.splits)
  then show ?thesis
    by (simp add: quantize_by_actions_def)
qed

subsection \<open>The adapter for unsigned 4-bit storage\<close>

text \<open>
  Claim C4. Let the executor quantize an action, and let \<open>quantize_tensor\<close>
  return the pair \<open>(q, s)\<close> on a symmetric run or the triple \<open>(q, s, z)\<close> on an
  asymmetric one. If the backend is \<open>xnnpack\<close>, the run is asymmetric and
  \<open>quantize_bits\<close> is 4, the entries written are the three components of
  \<open>update_to_uint4 q s z\<close> (or its exception ends the run). For every other
  combination of backend, bit width and symmetry the entries written are the
  components \<open>q\<close>, \<open>s\<close> (and \<open>z\<close>) as the routine returned them, and the result
  is the same whatever function stands for \<open>update_to_uint4\<close>: the adapter is
  not consulted.
\<close>

theorem uint4_adapter_applied_exactly_when:
  assumes "truthy (quantize_axis a)"
    and "quantize_tensor P (tensor_value a) (quantize_axis a) is_symmetric (quantize_bits a)
           = Inr (if is_symmetric then Pair2 q s else Triple3 q s z)"
  shows "(backend = ''xnnpack'' \<and> \<not> is_symmetric \<and> quantize_bits a = 4 \<longrightarrow>
           quantize_action P backend is_symmetric a out =
             (case update_to_uint4 P q s z of
               Inl e \<Rightarrow> Inl e
             | Inr (q', s', z') \<Rightarrow>
                 Inr (out(target_name a \<mapsto> (q', True),
                          target_name a @ ''_quantized_scale'' \<mapsto> (s', False),
                          target_name a @ ''_quantized_zp'' \<mapsto> (z', False)))))
       \<and> (\<not> (backend = ''xnnpack'' \<and> \<not> is_symmetric \<and> quantize_bits a = 4) \<longrightarrow>
           quantize_action P backend is_symmetric a out =
             (if is_symmetric then
                Inr (out(target_name a \<mapsto> (q, quantize_bits a = 4),
                         target_name a @ ''_quantized_scale'' \<mapsto> (s, False)))
              else
                Inr (out(target_name a \<mapsto> (q, quantize_bits a = 4),
                         target_name a @ ''_quantized_scale'' \<mapsto> (s, False),
                         target_name a @ ''_quantized_zp'' \<mapsto> (z, False))))
           \<and> quantize_action (P\<lparr>update_to_uint4 := u\<rparr>) backend is_symmetric a out =
               quantize_action P backend is_symmetric a out)"
proof (cases is_symmetric)
  case True
  with assms show ?thesis
    by (simp add: quantize_action_def)
next
  case False
  with assms have prim:
    "quantize_tensor P (tensor_value a) (quantize_axis a) False (quantize_bits a)
       = Inr (Triple3 q s z)"
    by simp
  show ?thesis
  proof (cases "backend = ''xnnpack'' \<and> quantize_bits a = 4")
    case True
    with False assms(1) prim show ?thesis
      by (simp add: quantize_action_def split: sum.splits prod.splits)
  next
    case other: False
    with False assms(1) prim have
      "quantize_action Q backend is_symmetric a out =
         Inr (out(target_name a \<mapsto> (q, quantize_bits a = 4),
                  target_name a @ ''_quantized_scale'' \<mapsto> (s, False),
                  target_name a @ ''_quantized_zp'' \<mapsto> (z, False)))"
      if "quantize_tensor Q = quantize_tensor P" for Q
      using that by (auto simp: quantize_action_def)
    from this [of P] this [of "P\<lparr>update_to_uint4 := u\<rparr>"] False other
    show ?thesis
      by auto
  qed
qed

theorem uint4_adapter_applied_exactly_when_witness:
  "quantize_action unit_primitives ''xnnpack'' False
     \<lparr>target_name = ''w'', tensor_value = [[1, 2], [3, 4]], quantize_axis = Some 1,
      quantize_bits = 4\<rparr> Map.empty
   = Inr [''w'' \<mapsto> ([[9, 10], [11, 12]], True),
          ''w_quantized_scale'' \<mapsto> ([[1], [1]], False),
          ''w_quantized_zp'' \<mapsto> ([[8], [8]], False)]
   \<and> quantize_action unit_primitives ''ml_drift'' False
     \<lparr>target_name = ''w'', tensor_value = [[1, 2], [3, 4]], quantize_axis = Some 1,
      quantize_bits = 4\<rparr> Map.empty
   = Inr [''w'' \<mapsto> ([[1, 2], [3, 4]], True),
          ''w_quantized_scale'' \<mapsto> ([[1], [1]], False),
          ''w_quantized_zp'' \<mapsto> ([[0], [0]], False)]"
proof -
  let ?a = "\<lparr>target_name = ''w'', tensor_value = [[1, 2], [3, 4 :: int]],
             quantize_axis = Some 1, quantize_bits = 4\<rparr>"
  have h1: "truthy (quantize_axis ?a)"
    by (simp add: truthy_def)
  have h2: "quantize_tensor unit_primitives (tensor_value ?a) (quantize_axis ?a) False
              (quantize_bits ?a)
            = Inr (if False then Pair2 [[1, 2], [3, 4]] [[1], [1]]
                   else Triple3 [[1, 2], [3, 4]] [[1], [1]] [[0], [0]])"
    by (simp add: unit_primitives_def unit_quantize_def)
  have u: "update_to_uint4 unit_primitives [[1, 2], [3, 4]] [[1], [1]] [[0], [0]]
             = Inr ([[9, 10], [11, 12]], [[1], [1]], [[8], [8]])"
    by (simp add: unit_primitives_def add_eight_def)
  from uint4_adapter_applied_exactly_when [OF h1 h2, of "''xnnpack''" Map.empty add_eight]
  have applied: "quantize_action unit_primitives ''xnnpack'' False ?a Map.empty
      = Inr [''w'' \<mapsto> ([[9, 10], [11, 12]], True),
             ''w_quantized_scale'' \<mapsto> ([[1], [1]], False),
             ''w_quantized_zp'' \<mapsto> ([[8], [8]], False)]"
    by (simp add: u)
  from uint4_adapter_applied_exactly_when [OF h1 h2, of "''ml_drift''" Map.empty add_eight]
  have passed: "quantize_action unit_primitives ''ml_drift'' False ?a Map.empty
      = Inr [''w'' \<mapsto> ([[1, 2], [3, 4]], True),
             ''w_quantized_scale'' \<mapsto> ([[1], [1]], False),
             ''w_quantized_zp'' \<mapsto> ([[0], [0]], False)]"
    by simp
  from applied passed show ?thesis
    by (rule conjI)
qed

subsection \<open>Duplicate target names\<close>

text \<open>
  Claim C7 says that a list with two actions of the same \<open>target_name\<close> is
  rejected with an error. The executor has no such check. Two unquantized
  actions named \<open>w\<close> are accepted, and the second one's tensor is the entry.
\<close>

theorem duplicate_names_counterexample:
  "quantize_by_actions unit_primitives
     [\<lparr>target_name = ''w'', tensor_value = [[1]], quantize_axis = None, quantize_bits = 8\<rparr>,
      \<lparr>target_name = ''w'', tensor_value = [[2]], quantize_axis = None, quantize_bits = 8\<rparr>]
     ''xnnpack'' True
   = Inr [''w'' \<mapsto> ([[2]], False)]"
  by (simp add: quantize_by_actions_def quantize_action_def truthy_def)

text \<open>
  Claim C7, amended. The executor does not look for duplicate names. A list
  is rejected only when some action, processed on its own, makes a routine
  fail: if every action of the list is accepted on its own, the list is
  accepted, whatever names its actions share, and every entry the last action
  writes is in the output as that action wrote it, also where an earlier
  action of the same name had written the key.
\<close>

theorem duplicates_accepted_last_wins:
  assumes "\<forall>a \<in> set (pre @ [a2]).
             \<exists>d. quantize_action P backend is_symmetric a Map.empty = Inr d"
  shows "\<exists>out d. quantize_by_actions P (pre @ [a2]) backend is_symmetric = Inr out
           \<and> quantize_action P backend is_symmetric a2 Map.empty = Inr d
           \<and> (\<forall>k \<in> dom d. out k = d k)"
proof -
  from assms
  have "\<forall>a \<in> set pre. \<exists>d. quantize_action P backend is_symmetric a Map.empty = Inr d"
    by simp
  from run_actions_accepts [OF this, of Map.empty]
  obtain m where m: "run_actions P backend is_symmetric pre Map.empty = Inr m"
    by blast
  from assms obtain d where d: "quantize_action P backend is_symmetric a2 Map.empty = Inr d"
    by (meson in_set_conv_decomp)
  then have "quantize_action P backend is_symmetric a2 m = Inr (m ++ d)"
    using quantize_action_add [of P backend is_symmetric a2 m "m ++ d"] by blast
  with m have "quantize_by_actions P (pre @ [a2]) backend is_symmetric = Inr (m ++ d)"
    by (simp add: quantize_by_actions_def run_actions_append)
  moreover have "\<forall>k \<in> dom d. (m ++ d) k = d k"
    by (simp add: map_add_dom_app_simps(1))
  ultimately show ?thesis using d by blast
qed

theorem duplicates_accepted_last_wins_witness:
  "\<exists>out. quantize_by_actions unit_primitives
     [\<lparr>target_name = ''w'', tensor_value = [[1]], quantize_axis = None, quantize_bits = 8\<rparr>,
      \<lparr>target_name = ''w'', tensor_value = [[2]], quantize_axis = Some 1, quantize_bits = 4\<rparr>]
     ''ml_drift'' True = Inr out
   \<and> out ''w'' = Some ([[2]], True)"
proof -
  let ?a1 = "\<lparr>target_name = ''w'', tensor_value = [[1 :: int]], quantize_axis = None,
              quantize_bits = 8\<rparr>"
  let ?a2 = "\<lparr>target_name = ''w'', tensor_value = [[2 :: int]], quantize_axis = Some 1,
              quantize_bits = 4\<rparr>"
  have d2: "quantize_action unit_primitives ''ml_drift'' True ?a2 Map.empty
      = Inr [''w'' \<mapsto> ([[2]], True), ''w_quantized_scale'' \<mapsto> ([[1]], False)]"
    by (simp add: quantize_action_def truthy_def unit_primitives_def unit_quantize_def)
  have d1: "quantize_action unit_primitives ''ml_drift'' True ?a1 Map.empty
      = Inr [''w'' \<mapsto> ([[1]], False)]"
    by (simp add: quantize_action_def truthy_def)
  have h: "\<forall>a \<in> set ([?a1] @ [?a2]).
             \<exists>d. quantize_action unit_primitives ''ml_drift'' True a Map.empty = Inr d"
    using d1 d2 by simp
  from duplicates_accepted_last_wins [OF h] d2
  obtain out where
    "quantize_by_actions unit_primitives ([?a1] @ [?a2]) ''ml_drift'' True = Inr out"
    "\<forall>k \<in> dom [''w'' \<mapsto> ([[2 :: int]], True), ''w_quantized_scale'' \<mapsto> ([[1]], False)].
       out k = [''w'' \<mapsto> ([[2]], True), ''w_quantized_scale'' \<mapsto> ([[1]], False)] k"
    by auto
  then show ?thesis
    by auto
qed

section \<open>Properties of the orchestrator\<close>

subsection \<open>The model on concrete runs\<close>

text \<open>
  The constructor on a fresh world creates the output directory and sets the
  twelve attributes. A full conversion invokes loader factory, loader, writer
  factory, writer and generator in this order; with an unsupported backend
  tag it fails only at the dispatch, after the weights have been written.
\<close>

lemma ConversionConfig_init_example:
  "ConversionConfig_init simple_os ''ckpt'' ''safetensors'' ''GEMMA_2B'' ''xnnpack''
     ''out'' True 8 8 8 False '''' None Map.empty
     \<lparr>env = \<lparr>regular = [], directories = []\<rparr>, trace = []\<rparr>
   = (Inr (),
      [''input_ckpt'' \<mapsto> PyStr ''ckpt'', ''ckpt_format'' \<mapsto> PyStr ''safetensors'',
       ''model_type'' \<mapsto> PyStr ''GEMMA_2B'', ''backend'' \<mapsto> PyStr ''xnnpack'',
       ''output_dir'' \<mapsto> PyStr ''out'', ''is_symmetric'' \<mapsto> PyBool True,
       ''attention_quant_bits'' \<mapsto> PyInt 8, ''feedforward_quant_bits'' \<mapsto> PyInt 8,
       ''embedding_quant_bits'' \<mapsto> PyInt 8, ''combine_file_only'' \<mapsto> PyBool False,
       ''vocab_model_file'' \<mapsto> PyStr '''',
       ''output_tflite_file'' \<mapsto> PyStr ''out/model.tflite''],
      \<lparr>env = \<lparr>regular = [], directories = [''out'']\<rparr>,
       trace = [Info ''Creating output directory: out'', Call MakeDirs]\<rparr>)"
  by (simp add: ConversionConfig_init_def create_if_absent_def simple_os_def bind_io_def
      logging_info_def call_def return_io_def)

lemma convert_checkpoint_full_path_example:
  "convert_checkpoint simple_externals unit_primitives
     \<lparr>cfg_input_ckpt = ''ckpt'', cfg_ckpt_format = ''safetensors'',
      cfg_model_type = ''GEMMA_2B'', cfg_backend = ''xnnpack'', cfg_output_dir = ''out'',
      cfg_is_symmetric = True, cfg_attention_quant_bits = 8,
      cfg_feedforward_quant_bits = 8, cfg_embedding_quant_bits = 8,
      cfg_combine_file_only = False, cfg_vocab_model_file = '''',
      cfg_output_tflite_file = ''out/model.tflite''\<rparr>
     \<lparr>env = \<lparr>regular = [], directories = [''out'']\<rparr>, trace = []\<rparr>
   = (Inr (),
      \<lparr>env = \<lparr>regular = [''out/model.tflite'', ''out/weights.bin''],
              directories = [''out'']\<rparr>,
       trace = [Info ''input folder: ckpt'', Call LoaderFactory, Call Loader,
                Call WriterFactory, Call Writer, Call XnnpackGenerator]\<rparr>)"
  by (simp add: convert_checkpoint_def combined_weight_bins_to_tflite_def bind_io_def
      logging_info_def call_def return_io_def raise_io_def simple_externals_def
      quantize_by_actions_def quantize_action_def truthy_def unit_primitives_def
      unit_quantize_def)

lemma convert_checkpoint_full_path_unsupported_example:
  "convert_checkpoint simple_externals unit_primitives
     \<lparr>cfg_input_ckpt = ''ckpt'', cfg_ckpt_format = ''safetensors'',
      cfg_model_type = ''GEMMA_2B'', cfg_backend = ''unsupported'', cfg_output_dir = ''out'',
      cfg_is_symmetric = True, cfg_attention_quant_bits = 8,
      cfg_feedforward_quant_bits = 8, cfg_embedding_quant_bits = 8,
      cfg_combine_file_only = False, cfg_vocab_model_file = '''',
      cfg_output_tflite_file = ''out/model.tflite''\<rparr>
     \<lparr>env = \<lparr>regular = [], directories = [''out'']\<rparr>, trace = []\<rparr>
   = (Inl (ValueError ''Unsupported backend: unsupported''),
      \<lparr>env = \<lparr>regular = [''out/weights.bin''], directories = [''out'']\<rparr>,
       trace = [Info ''input folder: ckpt'', Call LoaderFactory, Call Loader,
                Call WriterFactory, Call Writer]\<rparr>)"
  by (simp add: convert_checkpoint_def combined_weight_bins_to_tflite_def bind_io_def
      logging_info_def call_def return_io_def raise_io_def simple_externals_def
      quantize_by_actions_def quantize_action_def truthy_def unit_primitives_def
      unit_quantize_def)

subsection \<open>Combining only, with an unsupported backend\<close>

text \<open>
  Claim C5. A conversion with \<open>combine_file_only\<close> set and a backend tag that
  is neither \<open>xnnpack\<close> nor \<open>ml_drift\<close> fails with the \<open>ValueError\<close> that names
  the backend, raised by the dispatch of \<open>combined_weight_bins_to_tflite\<close>.
  The world is left as it was and the trace gains the one log line of
  \<open>convert_checkpoint\<close>: no loader, writer or generator is invoked. The
  outcome mentions neither the collaborators nor the quantization routines,
  so the executor has no part in it.
\<close>

theorem combine_only_unsupported_backend_fails_at_dispatch:
  assumes "cfg_combine_file_only config"
    and "cfg_backend config \<notin> {''xnnpack'', ''ml_drift''}"
  shows "convert_checkpoint X P config s =
           (Inl (ValueError (''Unsupported backend: '' @ cfg_backend config)),
            s\<lparr>trace := trace s @ [Info (''input folder: '' @ cfg_input_ckpt config)]\<rparr>)
       \<and> combined_weight_bins_to_tflite X (cfg_model_type config) (cfg_backend config)
            (cfg_output_dir config) (cfg_output_tflite_file config)
            (cfg_vocab_model_file config) s' =
           (Inl (ValueError (''Unsupported backend: '' @ cfg_backend config)), s')"
  using assms
  by (simp add: convert_checkpoint_def combined_weight_bins_to_tflite_def bind_io_def
      logging_info_def return_io_def raise_io_def)

theorem combine_only_unsupported_backend_fails_at_dispatch_witness:
  "convert_checkpoint failing_externals unit_primitives
     \<lparr>cfg_input_ckpt = ''ckpt'', cfg_ckpt_format = ''safetensors'',
      cfg_model_type = ''GEMMA_2B'', cfg_backend = ''unsupported'', cfg_output_dir = ''out'',
      cfg_is_symmetric = True, cfg_attention_quant_bits = 8,
      cfg_feedforward_quant_bits = 8, cfg_embedding_quant_bits = 8,
      cfg_combine_file_only = True, cfg_vocab_model_file = '''',
      cfg_output_tflite_file = ''out/model.tflite''\<rparr>
     \<lparr>env = \<lparr>regular = [], directories = [''out'']\<rparr>, trace = []\<rparr>
   = (Inl (ValueError ''Unsupported backend: unsupported''),
      \<lparr>env = \<lparr>regular = [], directories = [''out'']\<rparr>,
       trace = [Info ''input folder: ckpt'']\<rparr>)"
proof -
  let ?c = "\<lparr>cfg_input_ckpt = ''ckpt'', cfg_ckpt_format = ''safetensors'',
      cfg_model_type = ''GEMMA_2B'', cfg_backend = ''unsupported'', cfg_output_dir = ''out'',
      cfg_is_symmetric = True, cfg_attention_quant_bits = 8,
      cfg_feedforward_quant_bits = 8, cfg_embedding_quant_bits = 8,
      cfg_combine_file_only = True, cfg_vocab_model_file = '''',
      cfg_output_tflite_file = ''out/model.tflite''\<rparr>"
  have h1: "cfg_combine_file_only ?c"
    by simp
  have h2: "cfg_backend ?c \<notin> {''xnnpack'', ''ml_drift''}"
    by simp
  from combine_only_unsupported_backend_fails_at_dispatch
    [OF h1 h2, of failing_externals unit_primitives
      "\<lparr>env = \<lparr>regular = [], directories = [''out'']\<rparr>, trace = []\<rparr>"
      "\<lparr>env = \<lparr>regular = [], directories = [''out'']\<rparr>, trace = []\<rparr>", simplified]
  show ?thesis
    by simp
qed

subsection \<open>An output directory that is a file\<close>

text \<open>
  Claim C6. If \<open>output_dir\<close> is an existing regular file, the constructor
  raises the \<open>ValueError\<close> of line 56. At that point the object has the four
  attributes \<open>input_ckpt\<close>, \<open>ckpt_format\<close>, \<open>model_type\<close> and \<open>backend\<close> and no
  other attribute has been set; the world and the trace are as before: no
  directory is created, nothing is logged, and no loader, executor, writer or
  generator has been invoked.
\<close>

theorem output_dir_is_file_raises_first:
  assumes "path_isfile os output_dir (env s)"
  shows "ConversionConfig_init os input_ckpt ckpt_format model_type backend output_dir
           is_symmetric attention_quant_bits feedforward_quant_bits embedding_quant_bits
           combine_file_only vocab_model_file output_tflite_file self s =
         (Inl (ValueError ''Output directory mush not point to an existing file.''),
          self(''input_ckpt'' \<mapsto> PyStr input_ckpt,
               ''ckpt_format'' \<mapsto> PyStr ckpt_format,
               ''model_type'' \<mapsto> PyStr model_type,
               ''backend'' \<mapsto> PyStr backend),
          s)"
  using assms by (simp add: ConversionConfig_init_def)

theorem output_dir_is_file_raises_first_witness:
  "ConversionConfig_init simple_os ''ckpt'' ''safetensors'' ''GEMMA_2B'' ''xnnpack''
     ''out'' True 8 8 8 False '''' None Map.empty
     \<lparr>env = \<lparr>regular = [''out''], directories = []\<rparr>, trace = []\<rparr>
   = (Inl (ValueError ''Output directory mush not point to an existing file.''),
      [''input_ckpt'' \<mapsto> PyStr ''ckpt'', ''ckpt_format'' \<mapsto> PyStr ''safetensors'',
       ''model_type'' \<mapsto> PyStr ''GEMMA_2B'', ''backend'' \<mapsto> PyStr ''xnnpack''],
      \<lparr>env = \<lparr>regular = [''out''], directories = []\<rparr>, trace = []\<rparr>)"
proof -
  have h: "path_isfile simple_os ''out''
             (env \<lparr>env = \<lparr>regular = [''out''], directories = []\<rparr>, trace = []\<rparr>)"
    by (simp add: simple_os_def)
  from output_dir_is_file_raises_first [OF h]
  show ?thesis
    by simp
qed

end
